theory Spec2Isabelle
  imports Complex_Main "HOL-Library.Log_Nat"
begin

section \<open>Data model of the wallet backend (src/app.py)\<close>

text \<open>
  The backend keeps its data in five tables of a remote store: \<open>user_wallets\<close>,
  \<open>profiles\<close>, \<open>transactions\<close>, \<open>manual_payments\<close> and \<open>commissions\<close>.
  Every handler of \<open>app.py\<close> is a sequence of independent store calls; the model threads
  the store through each handler explicitly.

  Conventions of the embedding:
  \<^item> Python numbers (JSON ints and floats) are the rationals they denote. Where the code
    rounds and decides on the rounded value (\<open>handle_withdrawal_request\<close>), the operations
    on floats are rounded as IEEE 754 binary64 does; in the other handlers sums and products
    are exact, that is, the rounding error of binary floating point is not modelled there.
  \<^item> A field that is absent in a request and a falsy one (\<open>0\<close>, \<open>''\<close>, \<open>{}\<close>) are not
    told apart by the handlers (\<open>if not all([...])\<close>), so an absent field is modelled by the
    falsy value of its type.
  \<^item> Log lines and notifications have no effect on the store and are left out; message
    texts built with f-strings keep their constant part only.
\<close>

type_synonym uid = string

record wallet =
  balance :: rat
  order_income :: rat
  total_income :: rat
  total_referral_earnings :: rat
  pending_referral_bonus :: rat
  recharged_amount :: rat

record txn =
  txn_id :: nat
  txn_user :: uid
  txn_amount :: rat
  txn_fee :: "rat option"
  txn_type :: string
  txn_status :: string
  txn_gateway_id :: "string option"
  txn_bank_card :: "string option"
  txn_metadata :: "(string \<times> string) list"
  txn_admin_notes :: string
  txn_created_at :: nat
  txn_updated_at :: "nat option"

record payment =
  pay_id :: nat
  pay_user :: uid
  pay_amount :: rat
  pay_utr :: string
  pay_status :: string
  is_credited :: bool

record commission =
  com_referrer :: uid
  com_referred :: uid
  commission_amount :: rat
  investment_amount :: rat

text \<open>
  What the next store call does, as decided by the environment: it works, it raises an
  exception, or it finds no row and has no effect. A call that finds no row returns normally
  with empty data (a remote procedure: with a status code other than 204), except for a
  single-row fetch (\<open>.single()\<close>), which raises when it does not find exactly one row
  (spec 6; lines 1259--1264 of \<open>app.py\<close> handle that exception).
\<close>

datatype fault = NoFault | Raise | Empty

record store =
  supabase_ready :: bool
  razorpay_ready :: bool
  signature_valid :: "string \<Rightarrow> string \<Rightarrow> string \<Rightarrow> bool"
  wallets :: "uid \<rightharpoonup> wallet"
  referrers :: "uid \<rightharpoonup> uid option"
  transactions :: "txn list"
  manual_payments :: "payment list"
  commissions :: "commission list"
  faults :: "fault list"
  now :: nat

text \<open>The value a store call hands back: it raised, or it returned a response with \<open>.data\<close>.\<close>

datatype 'a reply = Raised | Returned 'a

record response =
  success :: bool
  http_status :: nat
  message :: string
  payload :: "(string \<times> rat) list"

definition resp :: "bool \<Rightarrow> nat \<Rightarrow> string \<Rightarrow> response" where
  "resp ok c m = \<lparr>success = ok, http_status = c, message = m, payload = []\<rparr>"

section \<open>The store calls\<close>

text \<open>
  Each call consumes the next entry of the fault script; an empty script means that the call
  works. With the client handle unset (\<open>supabase = None\<close>) every call raises
  (\<open>AttributeError\<close>).
\<close>

definition take_fault :: "store \<Rightarrow> fault \<times> store" where
  "take_fault s =
     (if \<not> supabase_ready s then (Raise, s)
      else case faults s of
             [] \<Rightarrow> (NoFault, s)
           | f # fs \<Rightarrow> (f, s\<lparr>faults := fs\<rparr>))"

text \<open>
  \<open>table('user_wallets').select(..).eq('user_id', u).single().execute()\<close>: the row, or an
  exception when no row matches. The handlers still test \<open>.data\<close> of the response, so the
  reply keeps the shape of an optional row.
\<close>

definition select_wallet_single :: "uid \<Rightarrow> store \<Rightarrow> wallet option reply \<times> store" where
  "select_wallet_single u s =
     (case take_fault s of
        (Raise, s1) \<Rightarrow> (Raised, s1)
      | (Empty, s1) \<Rightarrow> (Raised, s1)
      | (NoFault, s1) \<Rightarrow>
          (case wallets s1 u of
             None \<Rightarrow> (Raised, s1)
           | Some w \<Rightarrow> (Returned (Some w), s1)))"

text \<open>\<open>table('user_wallets').update({..}).eq('user_id', u).execute()\<close>: the rows changed.\<close>

definition update_wallet :: "uid \<Rightarrow> (wallet \<Rightarrow> wallet) \<Rightarrow> store \<Rightarrow> wallet list reply \<times> store" where
  "update_wallet u f s =
     (case take_fault s of
        (Raise, s1) \<Rightarrow> (Raised, s1)
      | (Empty, s1) \<Rightarrow> (Returned [], s1)
      | (NoFault, s1) \<Rightarrow>
          (case wallets s1 u of
             None \<Rightarrow> (Returned [], s1)
           | Some w \<Rightarrow> (Returned [f w], s1\<lparr>wallets := (wallets s1)(u \<mapsto> f w)\<rparr>)))"

text \<open>\<open>table('transactions').select('user_id, amount').eq('id', i).single().execute()\<close>.\<close>

definition select_txn_single :: "nat \<Rightarrow> store \<Rightarrow> txn option reply \<times> store" where
  "select_txn_single i s =
     (case take_fault s of
        (Raise, s1) \<Rightarrow> (Raised, s1)
      | (Empty, s1) \<Rightarrow> (Raised, s1)
      | (NoFault, s1) \<Rightarrow>
          (case filter (\<lambda>t. txn_id t = i) (transactions s1) of
             [t] \<Rightarrow> (Returned (Some t), s1)
           | _ \<Rightarrow> (Raised, s1)))"

text \<open>\<open>table('transactions').update({..}).eq(column, value).execute()\<close>, for a row filter \<open>P\<close>.\<close>

definition update_txns :: "(txn \<Rightarrow> bool) \<Rightarrow> (txn \<Rightarrow> txn) \<Rightarrow> store \<Rightarrow> txn list reply \<times> store" where
  "update_txns P f s =
     (case take_fault s of
        (Raise, s1) \<Rightarrow> (Raised, s1)
      | (Empty, s1) \<Rightarrow> (Returned [], s1)
      | (NoFault, s1) \<Rightarrow>
          (Returned (map f (filter P (transactions s1))),
           s1\<lparr>transactions := map (\<lambda>t. if P t then f t else t) (transactions s1)\<rparr>))"

text \<open>
  \<open>table('transactions').insert({..}).execute()\<close>: the store assigns the id and the
  creation time.
\<close>

definition fresh_txn_id :: "txn list \<Rightarrow> nat" where
  "fresh_txn_id ts = Suc (fold max (map txn_id ts) 0)"

definition insert_txn :: "txn \<Rightarrow> store \<Rightarrow> txn list reply \<times> store" where
  "insert_txn t s =
     (case take_fault s of
        (Raise, s1) \<Rightarrow> (Raised, s1)
      | (Empty, s1) \<Rightarrow> (Returned [], s1)
      | (NoFault, s1) \<Rightarrow>
          (let row = t\<lparr>txn_id := fresh_txn_id (transactions s1), txn_created_at := now s1\<rparr>
           in (Returned [row], s1\<lparr>transactions := transactions s1 @ [row]\<rparr>)))"

section \<open>Resolving a withdrawal: \<open>update_withdrawal_status_logic\<close>\<close>

record resolve_request =
  rq_transaction_id :: nat
  rq_status :: string
  rq_admin_notes :: string

definition unexpected_status_error :: response where
  "unexpected_status_error = resp False 500 ''An unexpected error occurred while updating status.''"

text \<open>
  The refund block (lines 108--141). \<open>Some r\<close> is an early return or an exception caught
  by the handler's \<open>except\<close>; \<open>None\<close> means that control reaches the status update.
\<close>

definition refund_withdrawal :: "nat \<Rightarrow> store \<Rightarrow> response option \<times> store" where
  "refund_withdrawal i s =
     (if \<not> supabase_ready s
      then (Some (resp False 500 ''Backend error: Database connection issue for refund.''), s)
      else case select_txn_single i s of
        (Raised, s1) \<Rightarrow> (Some unexpected_status_error, s1)
      | (Returned None, s1) \<Rightarrow> (None, s1)
      | (Returned (Some t), s1) \<Rightarrow>
          (case select_wallet_single (txn_user t) s1 of
             (Raised, s2) \<Rightarrow> (Some unexpected_status_error, s2)
           | (Returned None, s2) \<Rightarrow> (None, s2)
           | (Returned (Some w), s2) \<Rightarrow>
               (case update_wallet (txn_user t)
                       (\<lambda>x. x\<lparr>balance := balance w + txn_amount t\<rparr>) s2 of
                  (Raised, s3) \<Rightarrow> (Some unexpected_status_error, s3)
                | (Returned _, s3) \<Rightarrow> (None, s3))))"

definition update_withdrawal_status_logic :: "resolve_request \<Rightarrow> store \<Rightarrow> response \<times> store" where
  "update_withdrawal_status_logic d s =
     (if rq_transaction_id d = 0 \<or> rq_status d = []
      then (resp False 400 ''Transaction ID and new status are required.'', s)
      else if rq_status d \<notin> set [''completed'', ''rejected'', ''failed'']
      then (resp False 400 ''Invalid status. Allowed: completed, rejected, failed.'', s)
      else
        (case (if rq_status d \<in> set [''rejected'', ''failed'']
               then refund_withdrawal (rq_transaction_id d) s else (None, s)) of
           (Some r, s1) \<Rightarrow> (r, s1)
         | (None, s1) \<Rightarrow>
             (case update_txns (\<lambda>t. txn_id t = rq_transaction_id d)
                     (\<lambda>t. t\<lparr>txn_status := rq_status d,
                             txn_admin_notes := rq_admin_notes d,
                             txn_updated_at := Some (now s1)\<rparr>) s1 of
                (Raised, s2) \<Rightarrow> (unexpected_status_error, s2)
              | (Returned rows, s2) \<Rightarrow>
                  (if rows \<noteq> []
                   then (resp True 200 ''Withdrawal request updated.'', s2)
                   else (resp False 500 ''Failed to update withdrawal request status.'', s2)))))"

section \<open>Requesting a withdrawal: \<open>handle_withdrawal_request\<close>\<close>

text \<open>
  The numbers of this handler are Python floats: finite IEEE 754 binary64 values, written
  here as the rationals they denote. (A JSON integer is a Python \<open>int\<close>; below \<open>2 ^ 53\<close> it
  is a double as well and the handler computes the same values from it.)

  \<open>half_even\<close> rounds to the nearest integer, a tie going to the even neighbour.
\<close>

definition half_even :: "rat \<Rightarrow> int" where
  "half_even x =
     (let f = \<lfloor>x\<rfloor>; d = x - of_int f
      in if d < 1 / 2 then f else if 1 / 2 < d then f + 1 else if even f then f else f + 1)"

definition pow2 :: "int \<Rightarrow> rat" where
  "pow2 e = (if 0 \<le> e then 2 ^ nat e else 1 / 2 ^ nat (- e))"

text \<open>
  The exponent of the last mantissa bit of the double nearest to \<open>q\<close>: with
  \<open>2 ^ k \<le> \<bar>q\<bar> < 2 ^ (k + 1)\<close> it is \<open>k - 52\<close>, and \<open>- 1074\<close> in the subnormal range.
\<close>

definition float_exponent :: "rat \<Rightarrow> int" where
  "float_exponent q =
     (let (a, b) = quotient_of \<bar>q\<bar>;
          d = bitlen a - bitlen b;
          k = (if pow2 d \<le> \<bar>q\<bar> then d else d - 1)
      in max (k - 52) (- 1074))"

text \<open>
  \<open>fl q\<close> is the double nearest to \<open>q\<close>, a tie going to the even mantissa: the value of a
  decimal literal and the result of every arithmetic operation on floats. Overflow is not
  modelled; \<open>is_double\<close> says that a number is a finite double.
\<close>

definition fl :: "rat \<Rightarrow> rat" where
  "fl q = (if q = 0 then 0
           else of_int (half_even (q / pow2 (float_exponent q))) * pow2 (float_exponent q))"

definition is_double :: "rat \<Rightarrow> bool" where
  "is_double x = (fl x = x \<and> \<bar>x\<bar> < 2 ^ 1024)"

definition fmul :: "rat \<Rightarrow> rat \<Rightarrow> rat" where
  "fmul x y = fl (x * y)"

definition fsub :: "rat \<Rightarrow> rat \<Rightarrow> rat" where
  "fsub x y = fl (x - y)"

text \<open>
  Python's \<open>round(x, 2)\<close> on a float: the exact value of \<open>x\<close> is rounded to two decimals, a
  tie going to the even digit, and the decimal result is read back as a double.
\<close>

definition round2 :: "rat \<Rightarrow> rat" where
  "round2 x = fl (of_int (half_even (x * 100)) / 100)"

text \<open>The literal \<open>0.12\<close> of line 1369.\<close>

definition fee_rate :: rat where
  "fee_rate = fl (12 / 100)"

text \<open>
  The count of today's withdrawals:
  \<open>select('id').eq('user_id', u).eq('type', 'withdrawal').gt('created_at', start_of_day)\<close>.
\<close>

definition select_withdrawals_since :: "uid \<Rightarrow> nat \<Rightarrow> store \<Rightarrow> txn list reply \<times> store" where
  "select_withdrawals_since u t0 s =
     (case take_fault s of
        (Raise, s1) \<Rightarrow> (Raised, s1)
      | (Empty, s1) \<Rightarrow> (Returned [], s1)
      | (NoFault, s1) \<Rightarrow>
          (Returned (filter (\<lambda>t. txn_user t = u \<and> txn_type t = ''withdrawal'' \<and> t0 < txn_created_at t)
                      (transactions s1)), s1))"

text \<open>
  The eligibility gate:
  \<open>table('manual_payments').select('id').eq('user_id', u).in_('status', ['success', 'completed']).limit(1)\<close>.
\<close>

definition select_investments :: "uid \<Rightarrow> store \<Rightarrow> payment list reply \<times> store" where
  "select_investments u s =
     (case take_fault s of
        (Raise, s1) \<Rightarrow> (Raised, s1)
      | (Empty, s1) \<Rightarrow> (Returned [], s1)
      | (NoFault, s1) \<Rightarrow>
          (Returned (take 1 (filter (\<lambda>p. pay_user p = u \<and> pay_status p \<in> set [''success'', ''completed''])
                              (manual_payments s1))), s1))"

record withdrawal_request =
  wr_user :: uid
  wr_amount :: rat
  wr_bank_card :: string
  wr_bank_details :: "(string \<times> string) list"

definition unexpected_withdrawal_error :: response where
  "unexpected_withdrawal_error =
     resp False 500 ''An unexpected error occurred during withdrawal request submission.''"

text \<open>
  Steps 4 to the end of the handler (lines 1389--1430): record the pending transaction for
  the debit already made from \<open>current_order_income\<close>, refund when the insert returns no
  row. The notification text reads \<open>bank_details.get('accountNumber')[-4:]\<close>, which raises
  when the key is missing.
\<close>

definition record_withdrawal ::
    "withdrawal_request \<Rightarrow> rat \<Rightarrow> rat \<Rightarrow> rat \<Rightarrow> store \<Rightarrow> response \<times> store" where
  "record_withdrawal d current_order_income total_amount_to_deduct withdrawal_fee s =
     (case insert_txn
             \<lparr>txn_id = 0, txn_user = wr_user d, txn_amount = total_amount_to_deduct,
              txn_fee = Some withdrawal_fee, txn_type = ''withdrawal'', txn_status = ''pending'',
              txn_gateway_id = None, txn_bank_card = Some (wr_bank_card d),
              txn_metadata = wr_bank_details d, txn_admin_notes = [],
              txn_created_at = 0, txn_updated_at = None\<rparr> s of
        (Raised, s1) \<Rightarrow> (unexpected_withdrawal_error, s1)
      | (Returned [], s1) \<Rightarrow>
          (case update_wallet (wr_user d) (\<lambda>x. x\<lparr>order_income := current_order_income\<rparr>) s1 of
             (Raised, s2) \<Rightarrow> (unexpected_withdrawal_error, s2)
           | (Returned _, s2) \<Rightarrow>
               (resp False 500 ''Failed to record withdrawal request. Amount refunded to wallet. Please try again or contact support.'', s2))
      | (Returned (row # _), s1) \<Rightarrow>
          (case map_of (wr_bank_details d) ''accountNumber'' of
             None \<Rightarrow> (unexpected_withdrawal_error, s1)
           | Some _ \<Rightarrow>
               ((resp True 200 ''Withdrawal request submitted. It is now processing.'')
                  \<lparr>payload := [(''new_order_income'', fsub current_order_income total_amount_to_deduct),
                               (''transaction_id'', of_nat (txn_id row))]\<rparr>, s1)))"

text \<open>
  The handler; \<open>start_of_day\<close> is the host's reading of the start of the current day
  (\<open>datetime.date.today()\<close> at midnight).
\<close>

definition handle_withdrawal_request ::
    "withdrawal_request \<Rightarrow> nat \<Rightarrow> store \<Rightarrow> response \<times> store" where
  "handle_withdrawal_request d start_of_day s =
     (if wr_user d = [] \<or> wr_amount d = 0 \<or> wr_bank_card d = [] \<or> wr_bank_details d = []
      then (resp False 400 ''Missing withdrawal details.'', s)
      else if wr_amount d \<le> 0
      then (resp False 400 ''Invalid withdrawal amount.'', s)
      else case select_withdrawals_since (wr_user d) start_of_day s of
        (Raised, s1) \<Rightarrow> (unexpected_withdrawal_error, s1)
      | (Returned today, s1) \<Rightarrow>
          (if today \<noteq> [] \<and> 2 \<le> length today
           then (resp False 403 ''You can only withdraw twice per day.'', s1)
           else case select_investments (wr_user d) s1 of
             (Raised, s2) \<Rightarrow> (unexpected_withdrawal_error, s2)
           | (Returned invested, s2) \<Rightarrow>
               (if invested = []
                then (resp False 403 ''You must have a successful investment to withdraw.'', s2)
                else case select_wallet_single (wr_user d) s2 of
                  (Raised, s3) \<Rightarrow> (unexpected_withdrawal_error, s3)
                | (Returned None, s3) \<Rightarrow> (resp False 404 ''User wallet not found.'', s3)
                | (Returned (Some w), s3) \<Rightarrow>
                    (let current_order_income = order_income w;
                         withdrawal_fee = round2 (fmul (wr_amount d) fee_rate);
                         total_amount_to_deduct = round2 (wr_amount d)
                     in if current_order_income < total_amount_to_deduct
                        then (resp False 400 ''Insufficient order income for withdrawal.'', s3)
                        else case update_wallet (wr_user d)
                                    (\<lambda>x. x\<lparr>order_income := fsub current_order_income total_amount_to_deduct\<rparr>) s3 of
                          (Raised, s4) \<Rightarrow> (unexpected_withdrawal_error, s4)
                        | (Returned [], s4) \<Rightarrow>
                            (resp False 500 ''Failed to update wallet balance for withdrawal.'', s4)
                        | (Returned (_ # _), s4) \<Rightarrow>
                            record_withdrawal d current_order_income total_amount_to_deduct
                              withdrawal_fee s4))))"

section \<open>Claiming the sign-up bonus: \<open>claim_referral_bonus\<close>\<close>

definition unexpected_claim_error :: response where
  "unexpected_claim_error = resp False 500 ''An unexpected error occurred while claiming bonus.''"

definition claim_referral_bonus :: "uid \<Rightarrow> store \<Rightarrow> response \<times> store" where
  "claim_referral_bonus user_id s =
     (if \<not> supabase_ready s
      then (resp False 500 ''Backend setup issue: Supabase client not initialized.'', s)
      else if user_id = []
      then (resp False 400 ''User ID is required.'', s)
      else case select_wallet_single user_id s of
        (Raised, s1) \<Rightarrow> (unexpected_claim_error, s1)
      | (Returned None, s1) \<Rightarrow> (resp False 404 ''User wallet not found.'', s1)
      | (Returned (Some w), s1) \<Rightarrow>
          (if pending_referral_bonus w \<le> 0
           then (resp False 400 ''No pending bonus to claim.'', s1)
           else
             (let amount_to_claim = pending_referral_bonus w;
                  new_balance = balance w + amount_to_claim;
                  new_total_referral_earnings = total_referral_earnings w + amount_to_claim;
                  new_order_income = order_income w + amount_to_claim
              in case update_wallet user_id
                        (\<lambda>x. x\<lparr>balance := new_balance, pending_referral_bonus := 0,
                                total_referral_earnings := new_total_referral_earnings,
                                order_income := new_order_income\<rparr>) s1 of
                   (Raised, s2) \<Rightarrow> (unexpected_claim_error, s2)
                 | (Returned [], s2) \<Rightarrow>
                     (resp False 500 ''Failed to update wallet after claiming bonus.'', s2)
                 | (Returned (_ # _), s2) \<Rightarrow>
                     (case insert_txn
                             \<lparr>txn_id = 0, txn_user = user_id, txn_amount = amount_to_claim,
                              txn_fee = None, txn_type = ''bonus_referral_signup'',
                              txn_status = ''completed'', txn_gateway_id = None,
                              txn_bank_card = None, txn_metadata = [], txn_admin_notes = [],
                              txn_created_at = 0, txn_updated_at = None\<rparr> s2 of
                        (Raised, s3) \<Rightarrow> (unexpected_claim_error, s3)
                      | (Returned _, s3) \<Rightarrow>
                          ((resp True 200 ''Referral bonus claimed successfully!'')
                             \<lparr>payload := [(''new_balance'', new_balance),
                                          (''new_pending_bonus'', 0),
                                          (''new_total_referral_earnings'', new_total_referral_earnings),
                                          (''new_order_income'', new_order_income)]\<rparr>, s3)))))"

section \<open>The commission cascade\<close>

text \<open>
  \<open>table('profiles').select('referrer_id').eq('id', u).single().execute()\<close>: the row's
  \<open>referrer_id\<close> column, which may be null.
\<close>

definition select_referrer :: "uid \<Rightarrow> store \<Rightarrow> uid option option reply \<times> store" where
  "select_referrer u s =
     (case take_fault s of
        (Raise, s1) \<Rightarrow> (Raised, s1)
      | (Empty, s1) \<Rightarrow> (Raised, s1)
      | (NoFault, s1) \<Rightarrow>
          (case referrers s1 u of
             None \<Rightarrow> (Raised, s1)
           | Some r \<Rightarrow> (Returned (Some r), s1)))"

text \<open>
  Modelled from the spec: the stored procedure \<open>increment_referral_commission(p_user_id,
  p_amount)\<close> lives in the database, not in \<open>app.py\<close>. It is a single-row atomic increment
  of the referrer's \<open>total_referral_earnings\<close> and \<open>order_income\<close> by \<open>p_amount\<close>
  (spec 4.2 and 6; the comment at line 1020 of \<open>app.py\<close> says the same). It answers with
  status 204; a user without a wallet row is left alone.
\<close>

definition increment_referral_commission :: "uid \<Rightarrow> rat \<Rightarrow> store \<Rightarrow> nat reply \<times> store" where
  "increment_referral_commission u a s =
     (case take_fault s of
        (Raise, s1) \<Rightarrow> (Raised, s1)
      | (Empty, s1) \<Rightarrow> (Returned 400, s1)
      | (NoFault, s1) \<Rightarrow>
          (case wallets s1 u of
             None \<Rightarrow> (Returned 204, s1)
           | Some w \<Rightarrow>
               (Returned 204,
                s1\<lparr>wallets := (wallets s1)(u \<mapsto>
                      w\<lparr>total_referral_earnings := total_referral_earnings w + a,
                        order_income := order_income w + a\<rparr>)\<rparr>)))"

text \<open>
  Modelled from the spec: the stored procedure \<open>increment_recharged_amount(p_user_id,
  p_amount)\<close>, also in the database only: a single-row atomic increment of
  \<open>recharged_amount\<close> by \<open>p_amount\<close> (spec 4.1 and 6).
\<close>

definition increment_recharged_amount :: "uid \<Rightarrow> rat \<Rightarrow> store \<Rightarrow> nat reply \<times> store" where
  "increment_recharged_amount u a s =
     (case take_fault s of
        (Raise, s1) \<Rightarrow> (Raised, s1)
      | (Empty, s1) \<Rightarrow> (Returned 400, s1)
      | (NoFault, s1) \<Rightarrow>
          (case wallets s1 u of
             None \<Rightarrow> (Returned 204, s1)
           | Some w \<Rightarrow>
               (Returned 204,
                s1\<lparr>wallets := (wallets s1)(u \<mapsto>
                      w\<lparr>recharged_amount := recharged_amount w + a\<rparr>)\<rparr>)))"

text \<open>\<open>table('commissions').insert({..}).execute()\<close>.\<close>

definition insert_commission :: "commission \<Rightarrow> store \<Rightarrow> commission list reply \<times> store" where
  "insert_commission c s =
     (case take_fault s of
        (Raise, s1) \<Rightarrow> (Raised, s1)
      | (Empty, s1) \<Rightarrow> (Returned [], s1)
      | (NoFault, s1) \<Rightarrow> (Returned [c], s1\<lparr>commissions := commissions s1 @ [c]\<rparr>))"

text \<open>
  The referral block, the same text in both verification handlers (lines 845--877 and
  1003--1047). It sits in its own \<open>try\<close>: whatever a call raises is logged and dropped, so
  the block only ever returns a store.
\<close>

definition referral_commission :: "uid \<Rightarrow> rat \<Rightarrow> store \<Rightarrow> store" where
  "referral_commission user_id recharge_amount_inr s =
     (case select_referrer user_id s of
        (Raised, s1) \<Rightarrow> s1
      | (Returned None, s1) \<Rightarrow> s1
      | (Returned (Some None), s1) \<Rightarrow> s1
      | (Returned (Some (Some referrer_id)), s1) \<Rightarrow>
          (if referrer_id = [] then s1
           else
             (let commission_amount = recharge_amount_inr * (10 / 100)
              in case increment_referral_commission referrer_id commission_amount s1 of
                   (Raised, s2) \<Rightarrow> s2
                 | (Returned code, s2) \<Rightarrow>
                     (if code = 204
                      then snd (insert_commission
                                  \<lparr>com_referrer = referrer_id, com_referred = user_id,
                                   commission_amount = commission_amount,
                                   investment_amount = recharge_amount_inr\<rparr> s2)
                      else s2))))"

section \<open>Verifying a manual payment: \<open>admin_verify_manual_payment\<close>\<close>

text \<open>
  \<open>table('manual_payments').select('user_id,amount,id,is_credited').eq('utr_number', utr)
  .eq('status', 'pending').execute()\<close>.
\<close>

definition select_pending_payments :: "string \<Rightarrow> store \<Rightarrow> payment list reply \<times> store" where
  "select_pending_payments utr s =
     (case take_fault s of
        (Raise, s1) \<Rightarrow> (Raised, s1)
      | (Empty, s1) \<Rightarrow> (Returned [], s1)
      | (NoFault, s1) \<Rightarrow>
          (Returned (filter (\<lambda>p. pay_utr p = utr \<and> pay_status p = ''pending'') (manual_payments s1)),
           s1))"

text \<open>\<open>table('manual_payments').update({..}).eq('id', i).execute()\<close>.\<close>

definition update_payment :: "nat \<Rightarrow> (payment \<Rightarrow> payment) \<Rightarrow> store \<Rightarrow> payment list reply \<times> store" where
  "update_payment i f s =
     (case take_fault s of
        (Raise, s1) \<Rightarrow> (Raised, s1)
      | (Empty, s1) \<Rightarrow> (Returned [], s1)
      | (NoFault, s1) \<Rightarrow>
          (Returned (map f (filter (\<lambda>p. pay_id p = i) (manual_payments s1))),
           s1\<lparr>manual_payments :=
                 map (\<lambda>p. if pay_id p = i then f p else p) (manual_payments s1)\<rparr>))"

text \<open>
  The loop over the pending records of one UTR (lines 822--901), with the flag
  \<open>first_payment_processed\<close>. \<open>Raised\<close> is an exception that leaves the loop.
\<close>

fun verify_loop :: "payment list \<Rightarrow> bool \<Rightarrow> store \<Rightarrow> unit reply \<times> store" where
  "verify_loop [] first_payment_processed s = (Returned (), s)"
| "verify_loop (payment_data # rest) first_payment_processed s =
     (if is_credited payment_data
      then verify_loop rest first_payment_processed s
      else if \<not> first_payment_processed
      then
        (case update_payment (pay_id payment_data)
                (\<lambda>p. p\<lparr>pay_status := ''completed'', is_credited := True\<rparr>) s of
           (Raised, s1) \<Rightarrow> (Raised, s1)
         | (Returned _, s1) \<Rightarrow>
             (case increment_recharged_amount (pay_user payment_data) (pay_amount payment_data)
                     (referral_commission (pay_user payment_data) (pay_amount payment_data) s1) of
                (Raised, s2) \<Rightarrow> (Raised, s2)
              | (Returned _, s2) \<Rightarrow> verify_loop rest True s2))
      else
        (case update_payment (pay_id payment_data) (\<lambda>p. p\<lparr>pay_status := ''completed''\<rparr>) s of
           (Raised, s1) \<Rightarrow> (Raised, s1)
         | (Returned _, s1) \<Rightarrow> verify_loop rest first_payment_processed s1))"

definition admin_verify_manual_payment :: "string \<Rightarrow> store \<Rightarrow> response \<times> store" where
  "admin_verify_manual_payment utr_number s =
     (if utr_number = []
      then (resp False 400 ''UTR number is required.'', s)
      else case select_pending_payments utr_number s of
        (Raised, s1) \<Rightarrow>
          (resp False 500 ''An unexpected error occurred during verification.'', s1)
      | (Returned [], s1) \<Rightarrow>
          (resp False 404 ''No pending payment found for this UTR number.'', s1)
      | (Returned (p # ps), s1) \<Rightarrow>
          (case verify_loop (p # ps) False s1 of
             (Raised, s2) \<Rightarrow>
               (resp False 500 ''An unexpected error occurred during verification.'', s2)
           | (Returned _, s2) \<Rightarrow>
               (resp True 200 ''Manual payments successfully verified and wallet credited once for this UTR.'', s2)))"

section \<open>Verifying a gateway payment: \<open>verify_razorpay_payment\<close>\<close>

record razorpay_request =
  rz_order_id :: string
  rz_payment_id :: string
  rz_signature :: string
  rz_amount :: rat
  rz_user :: uid

text \<open>
  The two \<open>except\<close> clauses (lines 1079--1086) mark the transactions carrying the order id
  as failed and return the given response. The update runs outside any \<open>try\<close>: when it
  raises, the framework answers with its own 500.
\<close>

definition razorpay_failure :: "string \<Rightarrow> response \<Rightarrow> store \<Rightarrow> response \<times> store" where
  "razorpay_failure razorpay_order_id r s =
     (case update_txns (\<lambda>t. txn_gateway_id t = Some razorpay_order_id)
             (\<lambda>t. t\<lparr>txn_status := ''failed''\<rparr>) s of
        (Raised, s1) \<Rightarrow> (resp False 500 ''Internal Server Error'', s1)
      | (Returned _, s1) \<Rightarrow> (r, s1))"

definition unexpected_razorpay_error :: response where
  "unexpected_razorpay_error =
     resp False 500 ''Payment verification failed due to an unexpected error.''"

definition verify_razorpay_payment :: "razorpay_request \<Rightarrow> store \<Rightarrow> response \<times> store" where
  "verify_razorpay_payment d s =
     (if \<not> razorpay_ready s \<or> \<not> supabase_ready s
      then (resp False 500 ''Backend setup issue: Clients not initialized.'', s)
      else if rz_order_id d = [] \<or> rz_payment_id d = [] \<or> rz_signature d = []
              \<or> rz_amount d = 0 \<or> rz_user d = []
      then (resp False 400 ''Missing payment details.'', s)
      else if \<not> signature_valid s (rz_order_id d) (rz_payment_id d) (rz_signature d)
      then razorpay_failure (rz_order_id d)
             (resp False 400 ''Payment verification failed: Invalid signature.'') s
      else
        (case increment_recharged_amount (rz_user d) (rz_amount d)
                (referral_commission (rz_user d) (rz_amount d) s) of
           (Raised, s1) \<Rightarrow> razorpay_failure (rz_order_id d) unexpected_razorpay_error s1
         | (Returned _, s1) \<Rightarrow>
             (case update_txns (\<lambda>t. txn_gateway_id t = Some (rz_order_id d))
                     (\<lambda>t. t\<lparr>txn_status := ''completed'',
                             txn_gateway_id := Some (rz_payment_id d)\<rparr>) s1 of
                (Raised, s2) \<Rightarrow> razorpay_failure (rz_order_id d) unexpected_razorpay_error s2
              | (Returned _, s2) \<Rightarrow>
                  (case select_wallet_single (rz_user d) s2 of
                     (Raised, s3) \<Rightarrow>
                       razorpay_failure (rz_order_id d) unexpected_razorpay_error s3
                   | (Returned latest, s3) \<Rightarrow>
                       ((resp True 200 ''Recharge successful and wallet updated!'')
                          \<lparr>payload :=
                             [(''new_recharged_amount'',
                               case latest of None \<Rightarrow> 0 | Some w \<Rightarrow> recharged_amount w)]\<rparr>,
                        s3)))))"

section \<open>Auxiliary definitions for the properties\<close>

definition zero_wallet :: wallet where
  "zero_wallet = \<lparr>balance = 0, order_income = 0, total_income = 0, total_referral_earnings = 0,
                  pending_referral_bonus = 0, recharged_amount = 0\<rparr>"

text \<open>The wallet after its pending bonus was claimed, and the transaction recording the claim.\<close>

definition claimed_wallet :: "wallet \<Rightarrow> wallet" where
  "claimed_wallet w =
     w\<lparr>balance := balance w + pending_referral_bonus w,
       pending_referral_bonus := 0,
       total_referral_earnings := total_referral_earnings w + pending_referral_bonus w,
       order_income := order_income w + pending_referral_bonus w\<rparr>"

definition claim_txn :: "uid \<Rightarrow> rat \<Rightarrow> store \<Rightarrow> txn" where
  "claim_txn u a s =
     \<lparr>txn_id = fresh_txn_id (transactions s), txn_user = u, txn_amount = a, txn_fee = None,
      txn_type = ''bonus_referral_signup'', txn_status = ''completed'', txn_gateway_id = None,
      txn_bank_card = None, txn_metadata = [], txn_admin_notes = [], txn_created_at = now s,
      txn_updated_at = None\<rparr>"

definition bonus_store :: store where
  "bonus_store =
     \<lparr>supabase_ready = True, razorpay_ready = True,
      signature_valid = (\<lambda>order_id payment_id signature. signature = ''good''),
      wallets = [''u1'' \<mapsto> zero_wallet\<lparr>balance := 5, pending_referral_bonus := 20\<rparr>],
      referrers = [''u1'' \<mapsto> None],
      transactions = [], manual_payments = [], commissions = [], faults = [], now = 1000\<rparr>"

text \<open>
  A user with 500 of order income and one completed investment, the request to withdraw all
  of it, and the stores after the request and after its rejection by the admin.
\<close>

definition withdrawal_store :: store where
  "withdrawal_store =
     \<lparr>supabase_ready = True, razorpay_ready = True,
      signature_valid = (\<lambda>order_id payment_id signature. signature = ''good''),
      wallets = [''u2'' \<mapsto> zero_wallet\<lparr>order_income := 500\<rparr>],
      referrers = [''u2'' \<mapsto> None],
      transactions = [],
      manual_payments = [\<lparr>pay_id = 1, pay_user = ''u2'', pay_amount = 1000,
                           pay_utr = ''123456789012'', pay_status = ''completed'',
                           is_credited = True\<rparr>],
      commissions = [], faults = [], now = 1000\<rparr>"

definition demo_withdrawal :: withdrawal_request where
  "demo_withdrawal = \<lparr>wr_user = ''u2'', wr_amount = 500, wr_bank_card = ''card1'',
      wr_bank_details = [(''accountNumber'', ''0012345678''), (''bankName'', ''SBI'')]\<rparr>"

definition pending_withdrawal :: txn where
  "pending_withdrawal =
     \<lparr>txn_id = 1, txn_user = ''u2'', txn_amount = 500, txn_fee = Some 60,
      txn_type = ''withdrawal'', txn_status = ''pending'', txn_gateway_id = None,
      txn_bank_card = Some ''card1'',
      txn_metadata = [(''accountNumber'', ''0012345678''), (''bankName'', ''SBI'')],
      txn_admin_notes = [], txn_created_at = 1000, txn_updated_at = None\<rparr>"

definition requested_store :: store where
  "requested_store =
     withdrawal_store\<lparr>wallets := [''u2'' \<mapsto> zero_wallet], transactions := [pending_withdrawal]\<rparr>"

definition reject_request :: resolve_request where
  "reject_request = \<lparr>rq_transaction_id = 1, rq_status = ''rejected'', rq_admin_notes = ''no''\<rparr>"

definition rejected_withdrawal :: txn where
  "rejected_withdrawal =
     pending_withdrawal\<lparr>txn_status := ''rejected'', txn_admin_notes := ''no'',
                         txn_updated_at := Some 1000\<rparr>"

definition rejected_store :: store where
  "rejected_store =
     withdrawal_store\<lparr>wallets := [''u2'' \<mapsto> zero_wallet\<lparr>balance := 500\<rparr>],
                       transactions := [rejected_withdrawal]\<rparr>"

text \<open>
  The checks a withdrawal request has to pass before the wallet is read: the fields are
  present, the amount is positive, fewer than two withdrawals were made since the start of the
  day, and the user has a manual payment with status \<open>success\<close> or \<open>completed\<close>.
\<close>

definition passes_gates :: "withdrawal_request \<Rightarrow> nat \<Rightarrow> store \<Rightarrow> bool" where
  "passes_gates d start_of_day s =
     (wr_user d \<noteq> [] \<and> 0 < wr_amount d \<and> wr_bank_card d \<noteq> [] \<and> wr_bank_details d \<noteq> []
      \<and> length (filter (\<lambda>t. txn_user t = wr_user d \<and> txn_type t = ''withdrawal''
                               \<and> start_of_day < txn_created_at t) (transactions s)) < 2
      \<and> filter (\<lambda>p. pay_user p = wr_user d \<and> pay_status p \<in> set [''success'', ''completed''])
           (manual_payments s) \<noteq> [])"

text \<open>The pending transaction that records a withdrawal request.\<close>

definition withdrawal_txn :: "withdrawal_request \<Rightarrow> store \<Rightarrow> txn" where
  "withdrawal_txn d s =
     \<lparr>txn_id = fresh_txn_id (transactions s), txn_user = wr_user d,
      txn_amount = round2 (wr_amount d), txn_fee = Some (round2 (fmul (wr_amount d) fee_rate)),
      txn_type = ''withdrawal'', txn_status = ''pending'', txn_gateway_id = None,
      txn_bank_card = Some (wr_bank_card d), txn_metadata = wr_bank_details d,
      txn_admin_notes = [], txn_created_at = now s, txn_updated_at = None\<rparr>"

text \<open>
  A wallet holding 10 of order income, and a request whose amount is the JSON number 10.004;
  a wallet holding 2.67, and a request for 2.675, which no double equals.
\<close>

definition binary_store :: store where
  "binary_store =
     withdrawal_store\<lparr>wallets := [''u2'' \<mapsto> zero_wallet\<lparr>order_income := fl (267 / 100)\<rparr>]\<rparr>"

definition binary_withdrawal :: withdrawal_request where
  "binary_withdrawal = demo_withdrawal\<lparr>wr_amount := fl (107 / 40)\<rparr>"

definition small_store :: store where
  "small_store = withdrawal_store\<lparr>wallets := [''u2'' \<mapsto> zero_wallet\<lparr>order_income := 10\<rparr>]\<rparr>"

definition fractional_withdrawal :: withdrawal_request where
  "fractional_withdrawal = demo_withdrawal\<lparr>wr_amount := fl (2501 / 250)\<rparr>"


definition resolved_ok :: response where
  "resolved_ok = resp True 200 ''Withdrawal request updated.''"

text \<open>
  User \<open>u1\<close> referred user \<open>u2\<close>. The gateway example: \<open>u2\<close> has one pending recharge of 1000
  under the gateway order \<open>order_1\<close>, and the callback that verifies it.
\<close>

definition pending_recharge :: txn where
  "pending_recharge =
     \<lparr>txn_id = 1, txn_user = ''u2'', txn_amount = 1000, txn_fee = None,
      txn_type = ''recharge'', txn_status = ''pending'', txn_gateway_id = Some ''order_1'',
      txn_bank_card = None, txn_metadata = [], txn_admin_notes = [], txn_created_at = 900,
      txn_updated_at = None\<rparr>"

definition gateway_store :: store where
  "gateway_store =
     \<lparr>supabase_ready = True, razorpay_ready = True,
      signature_valid = (\<lambda>order_id payment_id signature. signature = ''good''),
      wallets = [''u1'' \<mapsto> zero_wallet, ''u2'' \<mapsto> zero_wallet],
      referrers = [''u1'' \<mapsto> None, ''u2'' \<mapsto> Some ''u1''],
      transactions = [pending_recharge], manual_payments = [], commissions = [],
      faults = [], now = 1000\<rparr>"

definition gateway_callback :: razorpay_request where
  "gateway_callback =
     \<lparr>rz_order_id = ''order_1'', rz_payment_id = ''pay_1'', rz_signature = ''good'',
      rz_amount = 1000, rz_user = ''u2''\<rparr>"

definition recharge_commission :: commission where
  "recharge_commission =
     \<lparr>com_referrer = ''u1'', com_referred = ''u2'', commission_amount = 100,
      investment_amount = 1000\<rparr>"

definition verified_store :: store where
  "verified_store =
     gateway_store
       \<lparr>wallets := [''u1'' \<mapsto> zero_wallet\<lparr>order_income := 100, total_referral_earnings := 100\<rparr>,
                    ''u2'' \<mapsto> zero_wallet\<lparr>recharged_amount := 1000\<rparr>],
        transactions := [pending_recharge\<lparr>txn_status := ''completed'',
                                          txn_gateway_id := Some ''pay_1''\<rparr>],
        commissions := [recharge_commission]\<rparr>"

definition invalid_signature_response :: response where
  "invalid_signature_response = resp False 400 ''Payment verification failed: Invalid signature.''"

text \<open>The transactions table after every row carrying the order id was marked failed.\<close>

definition failed_txns :: "string \<Rightarrow> store \<Rightarrow> txn list" where
  "failed_txns order_id s =
     map (\<lambda>t. if txn_gateway_id t = Some order_id then t\<lparr>txn_status := ''failed''\<rparr> else t)
       (transactions s)"

text \<open>
  The manual example: two pending submissions of \<open>u2\<close> for one UTR, the first of them already
  flagged as credited.
\<close>

definition credited_duplicate :: payment where
  "credited_duplicate =
     \<lparr>pay_id = 1, pay_user = ''u2'', pay_amount = 1000, pay_utr = ''123456789012'',
      pay_status = ''pending'', is_credited = True\<rparr>"

definition fresh_duplicate :: payment where
  "fresh_duplicate =
     \<lparr>pay_id = 2, pay_user = ''u2'', pay_amount = 1000, pay_utr = ''123456789012'',
      pay_status = ''pending'', is_credited = False\<rparr>"

definition settled_group_store :: store where
  "settled_group_store =
     gateway_store\<lparr>transactions := [], manual_payments := [credited_duplicate, fresh_duplicate]\<rparr>"

definition manual_verified_response :: response where
  "manual_verified_response =
     resp True 200 ''Manual payments successfully verified and wallet credited once for this UTR.''"

text \<open>
  A user without referrer, as the referral block sees it: no profile row, a null
  \<open>referrer_id\<close>, or an empty one.
\<close>

definition no_referrer :: "store \<Rightarrow> uid \<Rightarrow> bool" where
  "no_referrer s u = (case referrers s u of Some (Some r) \<Rightarrow> r = [] | _ \<Rightarrow> True)"

text \<open>The audit row of a commission on a recharge of \<open>a\<close> by \<open>u\<close>, referred by \<open>r\<close>.\<close>

definition commission_log :: "uid \<Rightarrow> uid \<Rightarrow> rat \<Rightarrow> commission" where
  "commission_log r u a =
     \<lparr>com_referrer = r, com_referred = u, commission_amount = a * (10 / 100),
      investment_amount = a\<rparr>"

text \<open>
  The record that a manual verification of the UTR credits: the first of its pending records
  that is not flagged as credited, if there is one.
\<close>

definition first_uncredited :: "string \<Rightarrow> store \<Rightarrow> payment option" where
  "first_uncredited utr s =
     find (\<lambda>q. \<not> is_credited q)
       (filter (\<lambda>q. pay_utr q = utr \<and> pay_status q = ''pending'') (manual_payments s))"

text \<open>
  A store with a pending submission of the referred user \<open>u2\<close> and, under another UTR, one of
  the user \<open>u1\<close>, who has no referrer.
\<close>

definition unreferred_payment :: payment where
  "unreferred_payment =
     \<lparr>pay_id = 7, pay_user = ''u1'', pay_amount = 300, pay_utr = ''210987654321'',
      pay_status = ''pending'', is_credited = False\<rparr>"

definition mixed_store :: store where
  "mixed_store =
     gateway_store\<lparr>transactions := [], manual_payments := [fresh_duplicate, unreferred_payment]\<rparr>"

text \<open>Three pending submissions of \<open>u2\<close> for one UTR, none of them credited.\<close>

definition triple_store :: store where
  "triple_store =
     gateway_store
       \<lparr>transactions := [],
        manual_payments := [fresh_duplicate\<lparr>pay_id := 1\<rparr>, fresh_duplicate,
                            fresh_duplicate\<lparr>pay_id := 3\<rparr>]\<rparr>"

text \<open>
  The store with the current status of every transaction replaced, by a function of the row.
\<close>

definition relabel_status :: "(txn \<Rightarrow> string) \<Rightarrow> store \<Rightarrow> store" where
  "relabel_status st s = s\<lparr>transactions := map (\<lambda>t. t\<lparr>txn_status := st t\<rparr>) (transactions s)\<rparr>"

section \<open>Properties\<close>

subsection \<open>Claiming the sign-up bonus\<close>

text \<open>
  Claim C4. With the store answering every call and the user's wallet present, the bonus claim
  is rejected (status 400, store untouched) whenever \<open>pending_referral_bonus \<le> 0\<close>.
  Otherwise it succeeds, sets \<open>pending_referral_bonus\<close> to 0, adds the claimed amount to
  each of \<open>balance\<close>, \<open>total_referral_earnings\<close> and \<open>order_income\<close>, and appends one
  completed \<open>bonus_referral_signup\<close> transaction of that amount; nothing else changes.
\<close>

theorem claim_referral_bonus_correct:
  assumes "supabase_ready s" and "user_id \<noteq> []" and "faults s = []"
    and "wallets s user_id = Some w"
  shows "(pending_referral_bonus w \<le> 0 \<longrightarrow>
            claim_referral_bonus user_id s = (resp False 400 ''No pending bonus to claim.'', s))
       \<and> (0 < pending_referral_bonus w \<longrightarrow>
            success (fst (claim_referral_bonus user_id s))
          \<and> snd (claim_referral_bonus user_id s) =
              s\<lparr>wallets := (wallets s)(user_id \<mapsto> claimed_wallet w),
                transactions := transactions s @ [claim_txn user_id (pending_referral_bonus w) s]\<rparr>)"
  using assms
  by (simp add: claim_referral_bonus_def select_wallet_single_def update_wallet_def insert_txn_def
        take_fault_def resp_def Let_def claimed_wallet_def claim_txn_def)

theorem claim_referral_bonus_correct_witness:
  "wallets (snd (claim_referral_bonus ''u1'' bonus_store)) ''u1'' =
     Some (zero_wallet\<lparr>balance := 25, pending_referral_bonus := 0, total_referral_earnings := 20,
                       order_income := 20\<rparr>)
   \<and> map txn_amount (transactions (snd (claim_referral_bonus ''u1'' bonus_store))) = [20]"
proof -
  have h: "supabase_ready bonus_store" "''u1'' \<noteq> []" "faults bonus_store = []"
    "wallets bonus_store ''u1'' = Some (zero_wallet\<lparr>balance := 5, pending_referral_bonus := 20\<rparr>)"
    by (simp_all add: bonus_store_def)
  show ?thesis
    using claim_referral_bonus_correct [OF h]
    by (simp add: claimed_wallet_def claim_txn_def zero_wallet_def bonus_store_def)
qed

subsection \<open>Evaluating the handlers on the example stores\<close>

lemmas store_calls = take_fault_def select_wallet_single_def update_wallet_def select_txn_single_def
  update_txns_def insert_txn_def fresh_txn_id_def select_withdrawals_since_def select_investments_def
  select_referrer_def increment_referral_commission_def increment_recharged_amount_def
  insert_commission_def select_pending_payments_def update_payment_def resp_def

lemmas withdrawal_demo = withdrawal_store_def demo_withdrawal_def pending_withdrawal_def
  requested_store_def reject_request_def rejected_withdrawal_def rejected_store_def zero_wallet_def

lemma round2_500:
  "round2 500 = 500" "round2 (fmul 500 fee_rate) = 60" "fsub 500 500 = 0" "is_double 500"
  by code_simp+

lemma demo_request_result:
  "handle_withdrawal_request demo_withdrawal 0 withdrawal_store =
     ((resp True 200 ''Withdrawal request submitted. It is now processing.'')
        \<lparr>payload := [(''new_order_income'', 0), (''transaction_id'', 1)]\<rparr>, requested_store)"
  by (simp add: handle_withdrawal_request_def record_withdrawal_def withdrawal_demo
        store_calls round2_500 Let_def)

lemma demo_reject_result:
  "update_withdrawal_status_logic reject_request requested_store =
     (resp True 200 ''Withdrawal request updated.'', rejected_store)"
  by (simp add: update_withdrawal_status_logic_def refund_withdrawal_def withdrawal_demo
        store_calls Let_def)

subsection \<open>Resolving a withdrawal\<close>

text \<open>
  Claim C7 says that a withdrawal resolved to \<open>rejected\<close> or \<open>failed\<close> is credited back to
  \<open>order_income\<close>, which then equals its value before the request. The handler credits
  \<open>balance\<close> instead (lines 125--136), while the request debited \<open>order_income\<close> (line 1381):
  a user with 500 of order income withdraws 500, the admin rejects the request, and the user
  ends with 0 of order income and 500 more of \<open>balance\<close>.
\<close>

theorem rejected_withdrawal_refunds_balance:
  "map_option order_income (wallets withdrawal_store ''u2'') = Some 500
   \<and> snd (handle_withdrawal_request demo_withdrawal 0 withdrawal_store) = requested_store
   \<and> map_option order_income (wallets requested_store ''u2'') = Some 0
   \<and> fst (update_withdrawal_status_logic reject_request requested_store) =
        resp True 200 ''Withdrawal request updated.''
   \<and> map txn_status (transactions (snd (update_withdrawal_status_logic reject_request requested_store)))
        = [''rejected'']
   \<and> map_option order_income
        (wallets (snd (update_withdrawal_status_logic reject_request requested_store)) ''u2'') = Some 0
   \<and> map_option balance
        (wallets (snd (update_withdrawal_status_logic reject_request requested_store)) ''u2'') = Some 500"
  by (simp add: demo_request_result demo_reject_result) (simp add: withdrawal_demo)

subsection \<open>Requesting a withdrawal\<close>

text \<open>
  Claim C6 says that a request whose debit went through and whose transaction could not be
  recorded leaves \<open>order_income\<close> as it was. The handler restores it only when the insert
  returns no row (lines 1402--1406). When the insert raises, the handler's \<open>except\<close> answers
  500 and the debit stays: below the first four store calls work and the insert raises.
\<close>

theorem insert_exception_keeps_debit:
  "handle_withdrawal_request demo_withdrawal 0
     (withdrawal_store\<lparr>faults := [NoFault, NoFault, NoFault, NoFault, Raise]\<rparr>) =
     (unexpected_withdrawal_error, withdrawal_store\<lparr>wallets := [''u2'' \<mapsto> zero_wallet]\<rparr>)"
  by (simp add: handle_withdrawal_request_def record_withdrawal_def withdrawal_demo
        store_calls round2_500 Let_def)

text \<open>
  Python's results on some floats: \<open>round(10.004, 2) = 10.0\<close>,
  \<open>round(10.004 * 0.12, 2) = 1.2\<close>, \<open>round(0.125 * 0.12, 2) = 0.01\<close> and
  \<open>round(2.675, 2) = 2.67\<close>.
\<close>

lemma round2_fractional:
  "10 < fl (2501 / 250)" "fl (2501 / 250) \<noteq> 0" "\<not> fl (2501 / 250) \<le> 0"
  "0 < fl (2501 / 250)"
  "round2 (fl (2501 / 250)) = 10"
  "round2 (fmul (fl (2501 / 250)) fee_rate) = fl (6 / 5)" "fsub 10 10 = 0"
  by code_simp+

lemma round2_binary:
  "round2 (fmul (1 / 8) fee_rate) = fl (1 / 100)" "round2 (fl (107 / 40)) = fl (267 / 100)"
  "round2 (fmul (fl (107 / 40)) fee_rate) = fl (8 / 25)"
  "fsub (fl (267 / 100)) (fl (267 / 100)) = 0" "0 < fl (107 / 40)"
  "is_double (fl (107 / 40))" "is_double (fl (267 / 100))"
  by code_simp+

text \<open>
  Claim C5, as stated, compares \<open>order_income\<close> with the requested amount and deducts the
  requested amount. The handler compares with and deducts \<open>round(amount, 2)\<close>
  (\<open>total_amount_to_deduct\<close>, line 1371): a request for 10.004 against an order income of 10
  is accepted, although \<open>order_income < amount\<close>, and deducts 10.
\<close>

theorem request_above_order_income_accepted:
  "map_option order_income (wallets small_store ''u2'') = Some 10
   \<and> 10 < wr_amount fractional_withdrawal
   \<and> passes_gates fractional_withdrawal 0 small_store
   \<and> success (fst (handle_withdrawal_request fractional_withdrawal 0 small_store))
   \<and> map_option order_income
        (wallets (snd (handle_withdrawal_request fractional_withdrawal 0 small_store)) ''u2'') = Some 0
   \<and> map txn_amount (transactions (snd (handle_withdrawal_request fractional_withdrawal 0 small_store)))
        = [10]"
  by (simp add: handle_withdrawal_request_def record_withdrawal_def passes_gates_def small_store_def
        fractional_withdrawal_def withdrawal_demo store_calls round2_fractional Let_def)

text \<open>
  Claim C5, amended. For a request that passes validation, the daily limit and the investment
  gate, on a store that answers every call and holds the user's wallet, the amount and the
  order income being floats: if \<open>order_income\<close> is less than \<open>round(amount, 2)\<close>, the
  request is rejected (status 400) and the store is unchanged; otherwise \<open>order_income\<close>
  becomes the float difference \<open>order_income - round(amount, 2)\<close> (the fee is not added to
  the deduction) and one pending withdrawal transaction is appended that carries
  \<open>round(amount, 2)\<close> as its amount and \<open>fee = round(amount * 0.12, 2)\<close>.
\<close>

theorem withdrawal_request_debits_rounded_amount:
  assumes "supabase_ready s" and "faults s = []" and "passes_gates d start_of_day s"
    and "wallets s (wr_user d) = Some w"
    and "is_double (wr_amount d)" and "is_double (order_income w)"
  shows "(order_income w < round2 (wr_amount d) \<longrightarrow>
            handle_withdrawal_request d start_of_day s =
              (resp False 400 ''Insufficient order income for withdrawal.'', s))
       \<and> (round2 (wr_amount d) \<le> order_income w \<longrightarrow>
            snd (handle_withdrawal_request d start_of_day s) =
              s\<lparr>wallets := (wallets s)(wr_user d \<mapsto>
                              w\<lparr>order_income := fsub (order_income w) (round2 (wr_amount d))\<rparr>),
                transactions := transactions s @ [withdrawal_txn d s]\<rparr>)"
proof -
  have gates: "wr_user d \<noteq> []" "0 < wr_amount d" "wr_bank_card d \<noteq> []" "wr_bank_details d \<noteq> []"
    "length (filter (\<lambda>t. txn_user t = wr_user d \<and> txn_type t = ''withdrawal''
                            \<and> start_of_day < txn_created_at t) (transactions s)) < 2"
    "filter (\<lambda>p. pay_user p = wr_user d \<and> (pay_status p = ''success'' \<or> pay_status p = ''completed''))
       (manual_payments s) \<noteq> []"
    using assms(3) by (simp_all add: passes_gates_def)
  have calls: "take_fault s = (NoFault, s)"
    using assms(1,2) by (simp add: take_fault_def)
  show ?thesis
    using assms(1,2,4) gates
    by (cases "map_of (wr_bank_details d) ''accountNumber''")
       (simp_all add: handle_withdrawal_request_def record_withdrawal_def select_withdrawals_since_def
          select_investments_def select_wallet_single_def update_wallet_def insert_txn_def
          take_fault_def withdrawal_txn_def resp_def Let_def not_less)
qed

theorem withdrawal_request_debits_rounded_amount_witness:
  "passes_gates binary_withdrawal 0 binary_store
   \<and> is_double (wr_amount binary_withdrawal)
   \<and> map_option order_income
        (wallets (snd (handle_withdrawal_request binary_withdrawal 0 binary_store)) ''u2'') = Some 0
   \<and> map txn_amount (transactions (snd (handle_withdrawal_request binary_withdrawal 0 binary_store)))
        = [fl (267 / 100)]
   \<and> map txn_fee (transactions (snd (handle_withdrawal_request binary_withdrawal 0 binary_store)))
        = [Some (fl (8 / 25))]"
proof -
  have h: "supabase_ready binary_store" "faults binary_store = []"
    "passes_gates binary_withdrawal 0 binary_store"
    "wallets binary_store (wr_user binary_withdrawal) =
       Some (zero_wallet\<lparr>order_income := fl (267 / 100)\<rparr>)"
    "is_double (wr_amount binary_withdrawal)"
    "is_double (order_income (zero_wallet\<lparr>order_income := fl (267 / 100)\<rparr>))"
    by (simp_all add: passes_gates_def binary_store_def binary_withdrawal_def withdrawal_demo
          round2_binary)
  show ?thesis
    using h(3,5) withdrawal_request_debits_rounded_amount [OF h]
    by (simp add: withdrawal_txn_def binary_store_def binary_withdrawal_def withdrawal_demo
          round2_binary)
qed

text \<open>
  Claim C8 says that resolving a transaction already in a terminal state is refused with a
  conflict error and changes nothing. The handler never reads the current status: rejecting
  the already rejected withdrawal of the example once more succeeds and credits its amount a
  second time.
\<close>

theorem rejected_again_refunds_again:
  "map txn_status (transactions rejected_store) = [''rejected'']
   \<and> update_withdrawal_status_logic reject_request rejected_store =
       (resp True 200 ''Withdrawal request updated.'',
        rejected_store\<lparr>wallets := [''u2'' \<mapsto> zero_wallet\<lparr>balance := 1000\<rparr>]\<rparr>)"
  by (simp add: update_withdrawal_status_logic_def refund_withdrawal_def withdrawal_demo
        store_calls Let_def)

text \<open>Resolve under a change of the current statuses of the transactions.\<close>

lemma filter_id_relabel:
  "filter (\<lambda>x. txn_id x = i) (map (\<lambda>t. t\<lparr>txn_status := st t\<rparr>) ts) =
     map (\<lambda>t. t\<lparr>txn_status := st t\<rparr>) (filter (\<lambda>x. txn_id x = i) ts)"
  by (induction ts) simp_all

lemma relabel_status_fields:
  "supabase_ready (relabel_status st s) = supabase_ready s"
  "wallets (relabel_status st s) = wallets s"
  "faults (relabel_status st s) = faults s"
  "now (relabel_status st s) = now s"
  by (simp_all add: relabel_status_def)

lemma take_fault_relabel:
  "take_fault (relabel_status st s) = (fst (take_fault s), relabel_status st (snd (take_fault s)))"
  by (simp add: take_fault_def relabel_status_def split: list.splits)

lemma select_txn_single_relabel:
  "select_txn_single i (relabel_status st s) =
     (map_reply (map_option (\<lambda>t. t\<lparr>txn_status := st t\<rparr>)) (fst (select_txn_single i s)),
      relabel_status st (snd (select_txn_single i s)))"
  apply (simp add: select_txn_single_def take_fault_relabel split: prod.splits fault.splits)
  apply (auto simp add: relabel_status_def filter_id_relabel take_fault_def split: list.splits if_splits)
  done

lemma select_wallet_single_relabel:
  "select_wallet_single u (relabel_status st s) =
     (fst (select_wallet_single u s), relabel_status st (snd (select_wallet_single u s)))"
  apply (simp add: select_wallet_single_def take_fault_relabel split: prod.splits fault.splits)
  apply (auto simp add: relabel_status_def take_fault_def split: list.splits if_splits option.splits)
  done

lemma update_wallet_relabel:
  "update_wallet u f (relabel_status st s) =
     (fst (update_wallet u f s), relabel_status st (snd (update_wallet u f s)))"
  apply (simp add: update_wallet_def take_fault_relabel split: prod.splits fault.splits)
  apply (auto simp add: relabel_status_def take_fault_def split: list.splits if_splits option.splits)
  done

lemma refund_withdrawal_relabel:
  "refund_withdrawal i (relabel_status st s) =
     (fst (refund_withdrawal i s), relabel_status st (snd (refund_withdrawal i s)))"
proof -
  obtain a s1 where t: "select_txn_single i s = (a, s1)" by (cases "select_txn_single i s")
  show ?thesis
  proof (cases a)
    case Raised
    then show ?thesis
      using t by (simp add: refund_withdrawal_def select_txn_single_relabel relabel_status_fields)
  next
    case (Returned ot)
    show ?thesis
    proof (cases ot)
      case None
      then show ?thesis
        using t Returned
        by (simp add: refund_withdrawal_def select_txn_single_relabel relabel_status_fields)
    next
      case (Some x)
      obtain b s2 where w: "select_wallet_single (txn_user x) s1 = (b, s2)"
        by (cases "select_wallet_single (txn_user x) s1")
      show ?thesis
      proof (cases b)
        case Raised
        then show ?thesis
          using t Returned Some w
          by (simp add: refund_withdrawal_def select_txn_single_relabel
                select_wallet_single_relabel relabel_status_fields)
      next
        case (Returned ow)
        note wallet_reply = Returned
        show ?thesis
        proof (cases ow)
          case None
          then show ?thesis
            using t \<open>a = Returned ot\<close> Some w wallet_reply
            by (simp add: refund_withdrawal_def select_txn_single_relabel
                  select_wallet_single_relabel relabel_status_fields)
        next
          case (Some y)
          obtain c s3 where
            u: "update_wallet (txn_user x) (\<lambda>z. z\<lparr>balance := balance y + txn_amount x\<rparr>) s2 = (c, s3)"
            by (cases "update_wallet (txn_user x) (\<lambda>z. z\<lparr>balance := balance y + txn_amount x\<rparr>) s2")
          show ?thesis
            using t \<open>a = Returned ot\<close> \<open>ot = Some x\<close> w wallet_reply Some u
            by (cases c)
               (simp_all add: refund_withdrawal_def select_txn_single_relabel
                  select_wallet_single_relabel update_wallet_relabel relabel_status_fields)
        qed
      qed
    qed
  qed
qed

lemma update_txns_by_id_relabel:
  "map_reply (\<lambda>rows. rows \<noteq> []) (fst (update_txns (\<lambda>t. txn_id t = i) f (relabel_status st s))) =
     map_reply (\<lambda>rows. rows \<noteq> []) (fst (update_txns (\<lambda>t. txn_id t = i) f s))"
  "wallets (snd (update_txns (\<lambda>t. txn_id t = i) f (relabel_status st s))) =
     wallets (snd (update_txns (\<lambda>t. txn_id t = i) f s))"
  by (auto simp add: update_txns_def take_fault_def relabel_status_def filter_id_relabel
        split: list.splits fault.splits)

text \<open>
  Claim C8, amended. Resolve does not read the transaction's current status: for every
  request, every store and every behaviour of the store calls, its result and the wallets it
  leaves are the same whether the transactions are pending or already in a terminal state. So
  a resolution of an already terminal transaction is not refused with a conflict error; it is
  processed like a first resolution, and a repeated \<open>rejected\<close> or \<open>failed\<close> resolution makes
  the refund credit again.
\<close>

theorem resolve_ignores_current_status:
  "fst (update_withdrawal_status_logic d (relabel_status st s)) =
     fst (update_withdrawal_status_logic d s)
   \<and> wallets (snd (update_withdrawal_status_logic d (relabel_status st s))) =
     wallets (snd (update_withdrawal_status_logic d s))"
proof -
  let ?P = "\<lambda>t. txn_id t = rq_transaction_id d"
  have step: "fst (case update_txns ?P f (relabel_status st s1) of
                    (Raised, s2) \<Rightarrow> (unexpected_status_error, s2)
                  | (Returned rows, s2) \<Rightarrow>
                      (if rows \<noteq> [] then (resp True 200 ''Withdrawal request updated.'', s2)
                       else (resp False 500 ''Failed to update withdrawal request status.'', s2)))
              = fst (case update_txns ?P f' s1 of
                    (Raised, s2) \<Rightarrow> (unexpected_status_error, s2)
                  | (Returned rows, s2) \<Rightarrow>
                      (if rows \<noteq> [] then (resp True 200 ''Withdrawal request updated.'', s2)
                       else (resp False 500 ''Failed to update withdrawal request status.'', s2)))
            \<and> wallets (snd (case update_txns ?P f (relabel_status st s1) of
                    (Raised, s2) \<Rightarrow> (unexpected_status_error, s2)
                  | (Returned rows, s2) \<Rightarrow>
                      (if rows \<noteq> [] then (resp True 200 ''Withdrawal request updated.'', s2)
                       else (resp False 500 ''Failed to update withdrawal request status.'', s2))))
              = wallets (snd (case update_txns ?P f' s1 of
                    (Raised, s2) \<Rightarrow> (unexpected_status_error, s2)
                  | (Returned rows, s2) \<Rightarrow>
                      (if rows \<noteq> [] then (resp True 200 ''Withdrawal request updated.'', s2)
                       else (resp False 500 ''Failed to update withdrawal request status.'', s2))))"
    for f f' s1
    by (auto simp add: update_txns_def take_fault_def relabel_status_def filter_id_relabel
          split: list.splits fault.splits)
  obtain r s1 where ref: "refund_withdrawal (rq_transaction_id d) s = (r, s1)"
    by (cases "refund_withdrawal (rq_transaction_id d) s")
  show ?thesis
    using ref step [of _ s1] step [of _ s]
    by (cases r)
       (simp_all add: update_withdrawal_status_logic_def refund_withdrawal_relabel
          relabel_status_fields)
qed

theorem resolve_ignores_current_status_witness:
  "map txn_status (transactions (relabel_status (\<lambda>t. ''rejected'') requested_store)) = [''rejected'']
   \<and> fst (update_withdrawal_status_logic reject_request
             (relabel_status (\<lambda>t. ''rejected'') requested_store)) = resolved_ok
   \<and> wallets (snd (update_withdrawal_status_logic reject_request
                      (relabel_status (\<lambda>t. ''rejected'') requested_store)))
       = wallets rejected_store"
  using resolve_ignores_current_status [of reject_request "\<lambda>t. ''rejected''" requested_store]
  by (simp add: demo_reject_result resolved_ok_def) (simp add: relabel_status_def withdrawal_demo)






subsection \<open>Verifying a gateway payment\<close>

lemmas gateway_demo = pending_recharge_def gateway_store_def gateway_callback_def
  recharge_commission_def verified_store_def zero_wallet_def

lemma gateway_first_result:
  "verify_razorpay_payment gateway_callback gateway_store =
     ((resp True 200 ''Recharge successful and wallet updated!'')
        \<lparr>payload := [(''new_recharged_amount'', 1000)]\<rparr>, verified_store)"
  by (simp add: verify_razorpay_payment_def referral_commission_def gateway_demo store_calls Let_def)

text \<open>
  Claim C10. A call that carries all its fields and whose signature is rejected changes no
  wallet and appends no commission, whatever the store calls do. When the store answers the
  one call made, the update of the transactions, every transaction carrying the gateway order
  id is marked \<open>failed\<close>, nothing else changes, and the caller gets the explicit failure result
  (status 400).
\<close>

theorem invalid_signature_marks_failed:
  assumes "razorpay_ready s" and "supabase_ready s"
    and "rz_order_id d \<noteq> []" and "rz_payment_id d \<noteq> []" and "rz_signature d \<noteq> []"
    and "rz_amount d \<noteq> 0" and "rz_user d \<noteq> []"
    and "\<not> signature_valid s (rz_order_id d) (rz_payment_id d) (rz_signature d)"
  shows "wallets (snd (verify_razorpay_payment d s)) = wallets s
       \<and> commissions (snd (verify_razorpay_payment d s)) = commissions s
       \<and> \<not> success (fst (verify_razorpay_payment d s))
       \<and> (faults s = [] \<longrightarrow>
            verify_razorpay_payment d s =
              (invalid_signature_response, s\<lparr>transactions := failed_txns (rz_order_id d) s\<rparr>))"
  using assms
  by (auto simp add: verify_razorpay_payment_def razorpay_failure_def update_txns_def take_fault_def
        invalid_signature_response_def failed_txns_def resp_def
        split: list.splits fault.splits)

theorem invalid_signature_marks_failed_witness:
  "verify_razorpay_payment (gateway_callback\<lparr>rz_signature := ''forged''\<rparr>) gateway_store =
     (invalid_signature_response,
      gateway_store\<lparr>transactions := [pending_recharge\<lparr>txn_status := ''failed''\<rparr>]\<rparr>)"
proof -
  have h: "razorpay_ready gateway_store" "supabase_ready gateway_store"
    "rz_order_id (gateway_callback\<lparr>rz_signature := ''forged''\<rparr>) \<noteq> []"
    "rz_payment_id (gateway_callback\<lparr>rz_signature := ''forged''\<rparr>) \<noteq> []"
    "rz_signature (gateway_callback\<lparr>rz_signature := ''forged''\<rparr>) \<noteq> []"
    "rz_amount (gateway_callback\<lparr>rz_signature := ''forged''\<rparr>) \<noteq> 0"
    "rz_user (gateway_callback\<lparr>rz_signature := ''forged''\<rparr>) \<noteq> []"
    "\<not> signature_valid gateway_store (rz_order_id (gateway_callback\<lparr>rz_signature := ''forged''\<rparr>))
         (rz_payment_id (gateway_callback\<lparr>rz_signature := ''forged''\<rparr>))
         (rz_signature (gateway_callback\<lparr>rz_signature := ''forged''\<rparr>))"
    by (simp_all add: gateway_demo)
  show ?thesis
    using invalid_signature_marks_failed [OF h]
    by (simp add: failed_txns_def gateway_demo)
qed

text \<open>
  Claim C1 says that any number of duplicate payment events for one external reference
  raises \<open>recharged_amount\<close> by the payment amount exactly once, through either verification
  operation. The manual path keeps a flag per record (\<open>is_credited\<close>); the gateway path keeps
  nothing: it never looks at the transaction of the order before crediting. The same verified
  callback delivered twice credits 1000 twice, and pays the referrer's commission twice.
\<close>

theorem duplicate_callback_credits_twice:
  "snd (verify_razorpay_payment gateway_callback gateway_store) = verified_store
   \<and> map_option recharged_amount (wallets verified_store ''u2'') = Some 1000
   \<and> verify_razorpay_payment gateway_callback verified_store =
       ((resp True 200 ''Recharge successful and wallet updated!'')
          \<lparr>payload := [(''new_recharged_amount'', 2000)]\<rparr>,
        verified_store
          \<lparr>wallets := [''u1'' \<mapsto> zero_wallet\<lparr>order_income := 200, total_referral_earnings := 200\<rparr>,
                       ''u2'' \<mapsto> zero_wallet\<lparr>recharged_amount := 2000\<rparr>],
           commissions := [recharge_commission, recharge_commission]\<rparr>)"
  by (simp add: gateway_first_result)
     (simp add: verify_razorpay_payment_def referral_commission_def gateway_demo store_calls Let_def)

theorem duplicate_callback_credits_twice_witness:
  "razorpay_ready verified_store \<and> supabase_ready verified_store
   \<and> signature_valid verified_store ''order_1'' ''pay_1'' ''good''
   \<and> map_option recharged_amount
        (wallets (snd (verify_razorpay_payment gateway_callback verified_store)) ''u2'') = Some 2000
   \<and> length (commissions (snd (verify_razorpay_payment gateway_callback verified_store))) = 2"
  using duplicate_callback_credits_twice
  by (simp add: gateway_demo)

subsection \<open>Verifying a manual payment\<close>

lemmas manual_demo = credited_duplicate_def fresh_duplicate_def settled_group_store_def
  manual_verified_response_def

text \<open>
  Claim C2 says that a group of pending records of one UTR in which some record is already
  credited gets no further wallet credit, has its remaining pending records completed, and
  yields an already-settled outcome. The loop skips only the credited record itself (lines
  832--833) and leaves \<open>first_payment_processed\<close> false, so the next record of the group is
  credited as if it were the first: the wallet gains 1000, the referrer a commission, the
  credited record stays pending, and the result is the ordinary success.
\<close>

theorem credited_group_credited_again:
  "admin_verify_manual_payment ''123456789012'' settled_group_store =
     (manual_verified_response,
      settled_group_store
        \<lparr>wallets := [''u1'' \<mapsto> zero_wallet\<lparr>order_income := 100, total_referral_earnings := 100\<rparr>,
                     ''u2'' \<mapsto> zero_wallet\<lparr>recharged_amount := 1000\<rparr>],
         manual_payments := [credited_duplicate,
                             fresh_duplicate\<lparr>pay_status := ''completed'', is_credited := True\<rparr>],
         commissions := [recharge_commission]\<rparr>)"
  by (simp add: admin_verify_manual_payment_def referral_commission_def manual_demo gateway_demo
        store_calls Let_def)

subsection \<open>The commission cascade\<close>

text \<open>What the store calls of the two verification handlers leave alone.\<close>

lemma update_payment_frame:
  "wallets (snd (update_payment i f s)) = wallets s"
  "commissions (snd (update_payment i f s)) = commissions s"
  "referrers (snd (update_payment i f s)) = referrers s"
  by (simp_all add: update_payment_def take_fault_def split: list.splits fault.splits)

lemma increment_recharged_amount_frame:
  "commissions (snd (increment_recharged_amount u a s)) = commissions s"
  "referrers (snd (increment_recharged_amount u a s)) = referrers s"
  by (simp_all add: increment_recharged_amount_def take_fault_def
        split: list.splits fault.splits option.splits)

lemma update_txns_frame:
  "commissions (snd (update_txns P f s)) = commissions s"
  by (simp add: update_txns_def take_fault_def split: list.splits fault.splits)

lemma select_wallet_single_frame:
  "commissions (snd (select_wallet_single u s)) = commissions s"
  by (simp add: select_wallet_single_def take_fault_def
        split: list.splits fault.splits option.splits)

lemma razorpay_failure_frame:
  "commissions (snd (razorpay_failure i r s)) = commissions s"
  by (simp add: razorpay_failure_def update_txns_def take_fault_def
        split: list.splits fault.splits)

lemma referral_commission_referrers:
  "referrers (referral_commission u a s) = referrers s"
  by (simp add: referral_commission_def select_referrer_def increment_referral_commission_def
        insert_commission_def take_fault_def Let_def
        split: list.splits fault.splits option.splits)

lemma referral_commission_no_referrer:
  "no_referrer s u \<Longrightarrow> commissions (referral_commission u a s) = commissions s"
  by (auto simp add: referral_commission_def select_referrer_def no_referrer_def take_fault_def
        split: list.splits fault.splits option.splits)

lemma no_referrer_cong: "referrers s' = referrers s \<Longrightarrow> no_referrer s' u = no_referrer s u"
  by (simp add: no_referrer_def)

text \<open>The referral block on a store that answers every call, for a user with a referrer.\<close>

lemma referral_commission_referrer:
  assumes "supabase_ready s" and "faults s = []"
    and "referrers s u = Some (Some r)" and "r \<noteq> []"
  shows "referral_commission u a s =
           s\<lparr>wallets := (case wallets s r of
                            None \<Rightarrow> wallets s
                          | Some w \<Rightarrow> (wallets s)(r \<mapsto>
                              w\<lparr>total_referral_earnings := total_referral_earnings w + a * (10 / 100),
                                order_income := order_income w + a * (10 / 100)\<rparr>)),
             commissions := commissions s @ [commission_log r u a]\<rparr>"
  using assms
  by (simp add: referral_commission_def select_referrer_def increment_referral_commission_def
        insert_commission_def take_fault_def commission_log_def Let_def split: option.splits)

text \<open>The loop after the first credit: no wallet and no commission changes any more.\<close>

lemma verify_loop_rest_frame:
  "wallets (snd (verify_loop ps True s)) = wallets s
   \<and> commissions (snd (verify_loop ps True s)) = commissions s"
proof (induction ps arbitrary: s)
  case Nil
  show ?case by simp
next
  case (Cons p ps)
  show ?case
  proof (cases "is_credited p")
    case True
    then show ?thesis using Cons.IH [of s] by simp
  next
    case False
    obtain r s1 where u: "update_payment (pay_id p) (\<lambda>q. q\<lparr>pay_status := ''completed''\<rparr>) s = (r, s1)"
      by (cases "update_payment (pay_id p) (\<lambda>q. q\<lparr>pay_status := ''completed''\<rparr>) s")
    have f: "wallets s1 = wallets s" "commissions s1 = commissions s"
      using update_payment_frame(1,2) [of "pay_id p" "\<lambda>q. q\<lparr>pay_status := ''completed''\<rparr>" s] u
      by simp_all
    show ?thesis
      using False u f Cons.IH [of s1] by (cases r) simp_all
  qed
qed

text \<open>The loop for users without referrer: no commission row, whatever the store calls do.\<close>

lemma verify_loop_no_referrer:
  "\<forall>q \<in> set ps. no_referrer s (pay_user q) \<Longrightarrow>
     commissions (snd (verify_loop ps fpp s)) = commissions s"
proof (induction ps arbitrary: s fpp)
  case Nil
  show ?case by simp
next
  case (Cons p ps)
  have here: "no_referrer s (pay_user p)" and rest: "\<forall>q \<in> set ps. no_referrer s (pay_user q)"
    using Cons.prems by simp_all
  show ?case
  proof (cases "is_credited p")
    case True
    then show ?thesis using Cons.IH [OF rest] by simp
  next
    case False
    note uncredited = False
    show ?thesis
    proof (cases fpp)
      case True
      obtain r s1 where u: "update_payment (pay_id p) (\<lambda>q. q\<lparr>pay_status := ''completed''\<rparr>) s = (r, s1)"
        by (cases "update_payment (pay_id p) (\<lambda>q. q\<lparr>pay_status := ''completed''\<rparr>) s")
      have f: "commissions s1 = commissions s" "referrers s1 = referrers s"
        using update_payment_frame(2,3) [of "pay_id p" "\<lambda>q. q\<lparr>pay_status := ''completed''\<rparr>" s] u
        by simp_all
      have rest1: "\<forall>q \<in> set ps. no_referrer s1 (pay_user q)"
        using rest no_referrer_cong [OF f(2)] by simp
      show ?thesis
        using uncredited True u f(1) Cons.IH [OF rest1, of True] by (cases r) simp_all
    next
      case False
      let ?f = "\<lambda>q. q\<lparr>pay_status := ''completed'', is_credited := True\<rparr>"
      obtain r s1 where u: "update_payment (pay_id p) ?f s = (r, s1)"
        by (cases "update_payment (pay_id p) ?f s")
      have f: "commissions s1 = commissions s" "referrers s1 = referrers s"
        using update_payment_frame(2,3) [of "pay_id p" ?f s] u by simp_all
      let ?s2 = "referral_commission (pay_user p) (pay_amount p) s1"
      have c2: "commissions ?s2 = commissions s"
        using referral_commission_no_referrer [of s1 "pay_user p" "pay_amount p"]
          here no_referrer_cong [OF f(2)] f(1) by simp
      have r2: "referrers ?s2 = referrers s"
        using referral_commission_referrers [of "pay_user p" "pay_amount p" s1] f(2) by simp
      obtain r' s3 where i: "increment_recharged_amount (pay_user p) (pay_amount p) ?s2 = (r', s3)"
        by (cases "increment_recharged_amount (pay_user p) (pay_amount p) ?s2")
      have f3: "commissions s3 = commissions s" "referrers s3 = referrers s"
        using increment_recharged_amount_frame [of "pay_user p" "pay_amount p" ?s2] i c2 r2
        by simp_all
      have rest3: "\<forall>q \<in> set ps. no_referrer s3 (pay_user q)"
        using rest no_referrer_cong [OF f3(2)] by simp
      show ?thesis
        using uncredited False u i f f3 Cons.IH [OF rest3, of True]
        by (cases r; cases r') simp_all
    qed
  qed
qed


text \<open>A verified gateway payment of a referred user, on a store that answers every call.\<close>

lemma razorpay_commission:
  assumes "razorpay_ready s" and "supabase_ready s" and "faults s = []"
    and "rz_order_id d \<noteq> []" and "rz_payment_id d \<noteq> []" and "rz_signature d \<noteq> []"
    and "rz_amount d \<noteq> 0" and "rz_user d \<noteq> []"
    and "signature_valid s (rz_order_id d) (rz_payment_id d) (rz_signature d)"
    and "referrers s (rz_user d) = Some (Some r)" and "r \<noteq> []" and "wallets s r = Some w"
  shows "commissions (snd (verify_razorpay_payment d s)) =
           commissions s @ [commission_log r (rz_user d) (rz_amount d)]"
    and "map_option order_income (wallets (snd (verify_razorpay_payment d s)) r) =
           Some (order_income w + rz_amount d * (10 / 100))"
    and "map_option total_referral_earnings (wallets (snd (verify_razorpay_payment d s)) r) =
           Some (total_referral_earnings w + rz_amount d * (10 / 100))"
  using assms
  by (simp_all add: verify_razorpay_payment_def
        referral_commission_referrer [OF assms(2,3,10,11)]
        increment_recharged_amount_def update_txns_def select_wallet_single_def take_fault_def
        razorpay_failure_def split: option.splits)

text \<open>
  A manual verification whose first pending record is uncredited and belongs to a referred
  user, on a store that answers every call.
\<close>

lemma manual_commission:
  assumes "supabase_ready s" and "faults s = []" and "utr \<noteq> []"
    and "filter (\<lambda>q. pay_utr q = utr \<and> pay_status q = ''pending'') (manual_payments s) = p # ps"
    and "\<not> is_credited p"
    and "referrers s (pay_user p) = Some (Some r)" and "r \<noteq> []" and "wallets s r = Some w"
  shows "commissions (snd (admin_verify_manual_payment utr s)) =
           commissions s @ [commission_log r (pay_user p) (pay_amount p)]
       \<and> map_option order_income (wallets (snd (admin_verify_manual_payment utr s)) r) =
           Some (order_income w + pay_amount p * (10 / 100))
       \<and> map_option total_referral_earnings (wallets (snd (admin_verify_manual_payment utr s)) r) =
           Some (total_referral_earnings w + pay_amount p * (10 / 100))"
proof -
  let ?f = "\<lambda>q. q\<lparr>pay_status := ''completed'', is_credited := True\<rparr>"
  let ?s1 = "s\<lparr>manual_payments := map (\<lambda>q. if pay_id q = pay_id p then ?f q else q) (manual_payments s)\<rparr>"
  have sel: "select_pending_payments utr s = (Returned (p # ps), s)"
    using assms(1,2,4) by (simp add: select_pending_payments_def take_fault_def)
  have upd: "update_payment (pay_id p) ?f s =
               (Returned (map ?f (filter (\<lambda>q. pay_id q = pay_id p) (manual_payments s))), ?s1)"
    using assms(1,2) by (simp add: update_payment_def take_fault_def)
  have s1: "supabase_ready ?s1" "faults ?s1 = []" "referrers ?s1 (pay_user p) = Some (Some r)"
    using assms(1,2,6) by simp_all
  let ?s2 = "referral_commission (pay_user p) (pay_amount p) ?s1"
  have s2: "?s2 = ?s1\<lparr>wallets := (wallets s)(r \<mapsto>
                      w\<lparr>total_referral_earnings := total_referral_earnings w + pay_amount p * (10 / 100),
                        order_income := order_income w + pay_amount p * (10 / 100)\<rparr>),
                    commissions := commissions s @ [commission_log r (pay_user p) (pay_amount p)]\<rparr>"
    using referral_commission_referrer [OF s1 assms(7), of "pay_amount p"] assms(8) by simp
  obtain x s3 where inc: "increment_recharged_amount (pay_user p) (pay_amount p) ?s2 = (x, s3)"
    by (cases "increment_recharged_amount (pay_user p) (pay_amount p) ?s2")
  have x: "x = Returned 204"
    using inc assms(1,2)
    by (auto simp add: s2 increment_recharged_amount_def take_fault_def split: option.splits)
  have s3: "commissions s3 = commissions s @ [commission_log r (pay_user p) (pay_amount p)]"
    "map_option order_income (wallets s3 r) = Some (order_income w + pay_amount p * (10 / 100))"
    "map_option total_referral_earnings (wallets s3 r) =
       Some (total_referral_earnings w + pay_amount p * (10 / 100))"
    using inc assms(1,2)
    by (auto simp add: s2 increment_recharged_amount_def take_fault_def split: option.splits if_splits)
  have loop: "verify_loop (p # ps) False s = verify_loop ps True s3"
    using assms(5) upd inc x by simp
  obtain y s4 where rest: "verify_loop ps True s3 = (y, s4)"
    by (cases "verify_loop ps True s3")
  have s4: "wallets s4 = wallets s3" "commissions s4 = commissions s3"
    using verify_loop_rest_frame [of ps s3] rest by simp_all
  have "snd (admin_verify_manual_payment utr s) = s4"
    using assms(3) sel loop rest by (cases y) (simp_all add: admin_verify_manual_payment_def)
  then show ?thesis using s3 s4 by simp
qed

text \<open>Users without referrer: no commission row from either handler, whatever the store does.\<close>

lemma razorpay_no_referrer:
  assumes "no_referrer s (rz_user d)"
  shows "commissions (snd (verify_razorpay_payment d s)) = commissions s"
proof -
  let ?s1 = "referral_commission (rz_user d) (rz_amount d) s"
  have c1: "commissions ?s1 = commissions s"
    using referral_commission_no_referrer [OF assms] by simp
  obtain x s2 where inc: "increment_recharged_amount (rz_user d) (rz_amount d) ?s1 = (x, s2)"
    by (cases "increment_recharged_amount (rz_user d) (rz_amount d) ?s1")
  have c2: "commissions s2 = commissions s"
    using increment_recharged_amount_frame(1) [of "rz_user d" "rz_amount d" ?s1] inc c1 by simp
  let ?P = "\<lambda>t. txn_gateway_id t = Some (rz_order_id d)"
  let ?g = "\<lambda>t. t\<lparr>txn_status := ''completed'', txn_gateway_id := Some (rz_payment_id d)\<rparr>"
  obtain y s3 where upd: "update_txns ?P ?g s2 = (y, s3)"
    by (cases "update_txns ?P ?g s2")
  have c3: "commissions s3 = commissions s"
    using update_txns_frame [of ?P ?g s2] upd c2 by simp
  obtain z s4 where sel: "select_wallet_single (rz_user d) s3 = (z, s4)"
    by (cases "select_wallet_single (rz_user d) s3")
  have c4: "commissions s4 = commissions s"
    using select_wallet_single_frame [of "rz_user d" s3] sel c3 by simp
  show ?thesis
    using inc upd sel c2 c3 c4
    by (cases x; cases y; cases z)
       (simp_all add: verify_razorpay_payment_def razorpay_failure_frame)
qed

lemma verify_loop_first_uncredited:
  "(\<forall>q. find (\<lambda>q. \<not> is_credited q) ps = Some q \<longrightarrow> no_referrer s (pay_user q)) \<Longrightarrow>
     commissions (snd (verify_loop ps False s)) = commissions s"
proof (induction ps arbitrary: s)
  case Nil
  show ?case by simp
next
  case (Cons p ps)
  show ?case
  proof (cases "is_credited p")
    case True
    then show ?thesis using Cons.IH [of s] Cons.prems by simp
  next
    case False
    have here: "no_referrer s (pay_user p)"
      using Cons.prems False by simp
    let ?f = "\<lambda>q. q\<lparr>pay_status := ''completed'', is_credited := True\<rparr>"
    obtain r s1 where u: "update_payment (pay_id p) ?f s = (r, s1)"
      by (cases "update_payment (pay_id p) ?f s")
    have f: "commissions s1 = commissions s" "referrers s1 = referrers s"
      using update_payment_frame(2,3) [of "pay_id p" ?f s] u by simp_all
    let ?s2 = "referral_commission (pay_user p) (pay_amount p) s1"
    have c2: "commissions ?s2 = commissions s"
      using referral_commission_no_referrer [of s1 "pay_user p" "pay_amount p"]
        here no_referrer_cong [OF f(2)] f(1) by simp
    obtain r' s3 where i: "increment_recharged_amount (pay_user p) (pay_amount p) ?s2 = (r', s3)"
      by (cases "increment_recharged_amount (pay_user p) (pay_amount p) ?s2")
    have c3: "commissions s3 = commissions s"
      using increment_recharged_amount_frame(1) [of "pay_user p" "pay_amount p" ?s2] i c2 by simp
    have c4: "commissions (snd (verify_loop ps True s3)) = commissions s"
      using verify_loop_rest_frame [of ps s3] c3 by simp
    show ?thesis
      using False u i f(1) c3 c4 by (cases r; cases r') simp_all
  qed
qed

lemma manual_no_referrer:
  assumes "\<forall>q. first_uncredited utr s = Some q \<longrightarrow> no_referrer s (pay_user q)"
  shows "commissions (snd (admin_verify_manual_payment utr s)) = commissions s"
proof -
  obtain x s1 where sel: "select_pending_payments utr s = (x, s1)"
    by (cases "select_pending_payments utr s")
  have f: "commissions s1 = commissions s" "referrers s1 = referrers s"
    using sel by (auto simp add: select_pending_payments_def take_fault_def
                    split: list.splits fault.splits if_splits)
  show ?thesis
  proof (cases x)
    case Raised
    then show ?thesis using sel f by (simp add: admin_verify_manual_payment_def)
  next
    case (Returned rows)
    have rows: "rows = [] \<or> rows = filter (\<lambda>q. pay_utr q = utr \<and> pay_status q = ''pending'')
                                    (manual_payments s)"
      using sel Returned by (auto simp add: select_pending_payments_def take_fault_def
                               split: list.splits fault.splits if_splits)
    have nr: "\<forall>q. find (\<lambda>q. \<not> is_credited q) rows = Some q \<longrightarrow> no_referrer s1 (pay_user q)"
      using assms rows no_referrer_cong [OF f(2)] by (auto simp add: first_uncredited_def)
    obtain y s2 where loop: "verify_loop rows False s1 = (y, s2)"
      by (cases "verify_loop rows False s1")
    have "commissions s2 = commissions s"
      using verify_loop_first_uncredited [OF nr] loop f(1) by simp
    then show ?thesis
      using sel Returned loop f
      by (cases rows; cases y) (simp_all add: admin_verify_manual_payment_def)
  qed
qed


text \<open>
  Claim C3. On a store that answers every call, a verified gateway payment of amount \<open>A\<close> by a
  user whose referrer \<open>r\<close> has a wallet, and a manual verification whose first pending record
  (amount \<open>A\<close>) is uncredited and belongs to such a user, each raise the referrer's
  \<open>order_income\<close> and \<open>total_referral_earnings\<close> by exactly \<open>0.10 * A\<close> and append exactly
  one commission row. For a user without referrer neither handler ever appends a commission
  row, whatever the store calls do and whatever else the store holds: the gateway handler
  when the paying user has no referrer, the manual handler when the record it credits (the
  first uncredited pending record of the UTR) belongs to a user without referrer.
\<close>

theorem commission_cascade_correct:
  "(razorpay_ready s \<and> supabase_ready s \<and> faults s = []
      \<and> rz_order_id d \<noteq> [] \<and> rz_payment_id d \<noteq> [] \<and> rz_signature d \<noteq> []
      \<and> rz_amount d \<noteq> 0 \<and> rz_user d \<noteq> []
      \<and> signature_valid s (rz_order_id d) (rz_payment_id d) (rz_signature d)
      \<and> referrers s (rz_user d) = Some (Some r) \<and> r \<noteq> [] \<and> wallets s r = Some w \<longrightarrow>
        commissions (snd (verify_razorpay_payment d s)) =
          commissions s @ [commission_log r (rz_user d) (rz_amount d)]
      \<and> map_option order_income (wallets (snd (verify_razorpay_payment d s)) r) =
          Some (order_income w + rz_amount d * (10 / 100))
      \<and> map_option total_referral_earnings (wallets (snd (verify_razorpay_payment d s)) r) =
          Some (total_referral_earnings w + rz_amount d * (10 / 100)))
   \<and> (supabase_ready s \<and> faults s = [] \<and> utr \<noteq> []
      \<and> filter (\<lambda>q. pay_utr q = utr \<and> pay_status q = ''pending'') (manual_payments s) = p # ps
      \<and> \<not> is_credited p
      \<and> referrers s (pay_user p) = Some (Some r) \<and> r \<noteq> [] \<and> wallets s r = Some w \<longrightarrow>
        commissions (snd (admin_verify_manual_payment utr s)) =
          commissions s @ [commission_log r (pay_user p) (pay_amount p)]
      \<and> map_option order_income (wallets (snd (admin_verify_manual_payment utr s)) r) =
          Some (order_income w + pay_amount p * (10 / 100))
      \<and> map_option total_referral_earnings (wallets (snd (admin_verify_manual_payment utr s)) r) =
          Some (total_referral_earnings w + pay_amount p * (10 / 100)))
   \<and> (no_referrer s (rz_user d) \<longrightarrow>
        commissions (snd (verify_razorpay_payment d s)) = commissions s)
   \<and> ((\<forall>q. first_uncredited utr s = Some q \<longrightarrow> no_referrer s (pay_user q)) \<longrightarrow>
        commissions (snd (admin_verify_manual_payment utr s)) = commissions s)"
  using razorpay_commission [of s d r w] manual_commission [of s utr p ps r w]
    razorpay_no_referrer [of s d] manual_no_referrer [of utr s]
  by blast

theorem commission_cascade_correct_witness:
  "commissions (snd (verify_razorpay_payment gateway_callback gateway_store)) = [recharge_commission]
   \<and> map_option order_income
        (wallets (snd (verify_razorpay_payment gateway_callback gateway_store)) ''u1'') = Some 100
   \<and> map_option total_referral_earnings
        (wallets (snd (verify_razorpay_payment gateway_callback gateway_store)) ''u1'') = Some 100
   \<and> commissions (snd (admin_verify_manual_payment ''123456789012'' triple_store))
        = [recharge_commission]
   \<and> map_option order_income
        (wallets (snd (admin_verify_manual_payment ''123456789012'' triple_store)) ''u1'') = Some 100
   \<and> commissions (snd (verify_razorpay_payment (gateway_callback\<lparr>rz_user := ''u1''\<rparr>) gateway_store))
        = []
   \<and> first_uncredited ''210987654321'' mixed_store = Some unreferred_payment
   \<and> referrers mixed_store ''u2'' = Some (Some ''u1'')
   \<and> commissions (snd (admin_verify_manual_payment ''210987654321'' mixed_store)) = []"
proof -
  have u: "first_uncredited ''210987654321'' mixed_store = Some unreferred_payment"
    "no_referrer mixed_store (pay_user unreferred_payment)"
    "referrers mixed_store ''u2'' = Some (Some ''u1'')" "commissions mixed_store = []"
    by (simp_all add: first_uncredited_def no_referrer_def mixed_store_def gateway_store_def
          fresh_duplicate_def unreferred_payment_def)
  have g: "razorpay_ready gateway_store \<and> supabase_ready gateway_store \<and> faults gateway_store = []
      \<and> rz_order_id gateway_callback \<noteq> [] \<and> rz_payment_id gateway_callback \<noteq> []
      \<and> rz_signature gateway_callback \<noteq> [] \<and> rz_amount gateway_callback \<noteq> 0
      \<and> rz_user gateway_callback \<noteq> []
      \<and> signature_valid gateway_store (rz_order_id gateway_callback)
           (rz_payment_id gateway_callback) (rz_signature gateway_callback)
      \<and> referrers gateway_store (rz_user gateway_callback) = Some (Some ''u1'') \<and> ''u1'' \<noteq> []
      \<and> wallets gateway_store ''u1'' = Some zero_wallet"
    by (simp add: gateway_store_def gateway_callback_def)
  have m: "supabase_ready triple_store \<and> faults triple_store = [] \<and> ''123456789012'' \<noteq> []
      \<and> filter (\<lambda>q. pay_utr q = ''123456789012'' \<and> pay_status q = ''pending'')
           (manual_payments triple_store)
         = fresh_duplicate\<lparr>pay_id := 1\<rparr> # [fresh_duplicate, fresh_duplicate\<lparr>pay_id := 3\<rparr>]
      \<and> \<not> is_credited (fresh_duplicate\<lparr>pay_id := 1\<rparr>)
      \<and> referrers triple_store (pay_user (fresh_duplicate\<lparr>pay_id := 1\<rparr>)) = Some (Some ''u1'')
      \<and> ''u1'' \<noteq> [] \<and> wallets triple_store ''u1'' = Some zero_wallet"
    by (simp add: triple_store_def gateway_store_def fresh_duplicate_def)
  have n: "no_referrer gateway_store (rz_user (gateway_callback\<lparr>rz_user := ''u1''\<rparr>))"
    by (simp add: no_referrer_def gateway_store_def)
  have a: "commission_log ''u1'' ''u2'' 1000 = recharge_commission"
    by (simp add: commission_log_def recharge_commission_def)
  show ?thesis
    using g m n a
      commission_cascade_correct [of gateway_store gateway_callback "''u1''" zero_wallet]
      commission_cascade_correct [of triple_store _ "''u1''" zero_wallet "''123456789012''"
        "fresh_duplicate\<lparr>pay_id := 1\<rparr>" "[fresh_duplicate, fresh_duplicate\<lparr>pay_id := 3\<rparr>]"]
      commission_cascade_correct [of gateway_store "gateway_callback\<lparr>rz_user := ''u1''\<rparr>"]
      u commission_cascade_correct [of mixed_store _ _ _ "''210987654321''"]
    by (simp add: gateway_store_def gateway_callback_def triple_store_def fresh_duplicate_def
          zero_wallet_def)
qed

end
